theory Spec2Isabelle
  imports Main "HOL-Library.AList"
begin

section \<open>Overview\<close>

text \<open>
  A model of \<^verbatim>\<open>src/ai_interview.py\<close>, function by function and under the names of the
  source: \<open>load_questions\<close>, \<open>transcribe_audio\<close>, \<open>score_response\<close>, \<open>save_results\<close> and
  \<open>main\<close>. What the program reads from outside is an argument of the model: the file
  system, the microphone, the transcription service, the scoring endpoint, the text of the
  name input and the stored table. What it shows or prints is returned as a list, and an
  exception that leaves a function is the \<open>Inl\<close> of its result.

  Left out: the cache of \<^verbatim>\<open>@st.cache_data\<close>, the failures of SQLite, and the check at import
  time that raises \<^verbatim>\<open>ValueError\<close> when \<^verbatim>\<open>OPENROUTER_API_KEY\<close> is unset (the model
  covers the runs that got past it, with the key in \<open>config\<close>).
\<close>

section \<open>Python strings\<close>

text \<open>
  The strings of the program are Python \<^verbatim>\<open>str\<close> values. They are modelled as
  \<^typ>\<open>string\<close>, one \<^typ>\<open>char\<close> per code point, which covers the code points below 256.
  \<^verbatim>\<open>str.strip()\<close>, \<^verbatim>\<open>str.lower()\<close> and \<^verbatim>\<open>int()\<close> are written out for that range as
  CPython defines them.
\<close>

definition isspace :: "char \<Rightarrow> bool" where
  \<comment> \<open>\<^verbatim>\<open>str.isspace\<close> on one code point: TAB..CR, FS..US, space, NEL, NBSP.\<close>
  "isspace c =
     (let n = (of_char c :: nat)
      in (9 \<le> n \<and> n \<le> 13) \<or> (28 \<le> n \<and> n \<le> 32) \<or> n = 133 \<or> n = 160)"

definition lstrip :: "string \<Rightarrow> string" where
  "lstrip s = dropWhile isspace s"

definition rstrip :: "string \<Rightarrow> string" where
  "rstrip s = rev (dropWhile isspace (rev s))"

definition strip :: "string \<Rightarrow> string" where
  \<comment> \<open>\<^verbatim>\<open>s.strip()\<close> with no argument.\<close>
  "strip s = rstrip (lstrip s)"

definition lower_char :: "char \<Rightarrow> char" where
  \<comment> \<open>A..Z and the upper-case letters of the Latin-1 block (all of C0..DE but the
      multiplication sign D7) move up by 32; every other code point below 256 maps to itself.\<close>
  "lower_char c =
     (let n = (of_char c :: nat)
      in if (65 \<le> n \<and> n \<le> 90) \<or> (192 \<le> n \<and> n \<le> 222 \<and> n \<noteq> 215)
         then char_of (n + 32) else c)"

definition lower :: "string \<Rightarrow> string" where
  \<comment> \<open>\<^verbatim>\<open>s.lower()\<close>.\<close>
  "lower s = map lower_char s"

section \<open>Exceptions\<close>

text \<open>
  Every exception the program can raise is a value. A function that can raise returns
  \<open>error + 'a\<close>, with \<open>Inl\<close> for the exception that leaves it.
\<close>

datatype error =
    FileNotFoundError | KeyError | ValueError | NameError | AttributeError
  | IndexError | TypeError
  | JSONDecodeError       \<comment> \<open>\<^verbatim>\<open>response.json()\<close> on a body that is not JSON\<close>
  | UnknownValueError     \<comment> \<open>\<^verbatim>\<open>speech_recognition.UnknownValueError\<close>\<close>
  | RequestError          \<comment> \<open>\<^verbatim>\<open>speech_recognition.RequestError\<close>\<close>
  | WaitTimeoutError      \<comment> \<open>\<^verbatim>\<open>speech_recognition.WaitTimeoutError\<close>\<close>
  | OtherError string     \<comment> \<open>any other subclass of \<^verbatim>\<open>Exception\<close> raised by a library\<close>

section \<open>The built-in \<^verbatim>\<open>int\<close> on a string\<close>

definition isdigit :: "char \<Rightarrow> bool" where
  "isdigit c = (let n = (of_char c :: nat) in 48 \<le> n \<and> n \<le> 57)"

definition digit_value :: "char \<Rightarrow> int" where
  "digit_value c = int (of_char c) - 48"

definition int_space :: "char \<Rightarrow> bool" where
  \<comment> \<open>What \<^verbatim>\<open>int\<close> skips around the number: TAB..CR, space, NEL, NBSP. It is less than
      \<^verbatim>\<open>str.strip\<close> removes: FS..US are not skipped.\<close>
  "int_space c =
     (let n = (of_char c :: nat) in (9 \<le> n \<and> n \<le> 13) \<or> n = 32 \<or> n = 133 \<or> n = 160)"

fun scan_digits :: "int \<Rightarrow> nat \<Rightarrow> string \<Rightarrow> (int \<times> nat) option" where
  \<comment> \<open>The digits after the first one, with the value and the number of digits read so far.
      One underscore may stand between two digits.\<close>
  "scan_digits acc k [] = Some (acc, k)"
| "scan_digits acc k [c] =
     (if isdigit c then Some (10 * acc + digit_value c, Suc k) else None)"
| "scan_digits acc k (c # d # ds) =
     (if isdigit c then scan_digits (10 * acc + digit_value c) (Suc k) (d # ds)
      else if c = CHR ''_'' \<and> isdigit d then scan_digits acc k (d # ds)
      else None)"

definition unsigned_digits :: "string \<Rightarrow> (int \<times> nat) option" where
  \<comment> \<open>A literal starts with a digit: neither the empty string nor a leading underscore.\<close>
  "unsigned_digits s =
     (case s of [] \<Rightarrow> None | c # _ \<Rightarrow> if isdigit c then scan_digits 0 0 s else None)"

definition exceeds_limit :: "nat \<Rightarrow> nat \<Rightarrow> bool" where
  \<comment> \<open>\<^verbatim>\<open>sys.get_int_max_str_digits()\<close> is 0 (no limit, also every interpreter before the
      limit existed) or at least 640; the default is 4300.\<close>
  "exceeds_limit max_str_digits k = (640 < k \<and> 0 < max_str_digits \<and> max_str_digits < k)"

definition py_int :: "nat \<Rightarrow> string \<Rightarrow> int option" where
  \<comment> \<open>\<^verbatim>\<open>int(s)\<close> in base 10; \<open>None\<close> is \<^verbatim>\<open>ValueError\<close>, the only exception it raises on
      a string.\<close>
  "py_int max_str_digits s =
     (let t = rev (dropWhile int_space (rev (dropWhile int_space s)));
          (sign, u) = (case t of
                         [] \<Rightarrow> (1, t)
                       | c # cs \<Rightarrow> if c = CHR ''+'' then (1, cs)
                                   else if c = CHR ''-'' then (- 1, cs) else (1, t))
      in case unsigned_digits u of
           None \<Rightarrow> None
         | Some (v, k) \<Rightarrow> if exceeds_limit max_str_digits k then None else Some (sign * v))"

section \<open>The remote scoring call\<close>

datatype json_value =
    JNull | JBool bool
  | JNumber                                  \<comment> \<open>an int or a float; the program never reads one\<close>
  | JString string
  | JArray "json_value list"
  | JObject "(string \<times> json_value) list"   \<comment> \<open>a dict, as the list of its items\<close>

fun getitem_key :: "json_value \<Rightarrow> string \<Rightarrow> error + json_value" where
  \<comment> \<open>\<^verbatim>\<open>obj[key]\<close> with a \<^verbatim>\<open>str\<close> key.\<close>
  "getitem_key (JObject items) k =
     (case map_of items k of None \<Rightarrow> Inl KeyError | Some v \<Rightarrow> Inr v)"
| "getitem_key _ k = Inl TypeError"

fun getitem_0 :: "json_value \<Rightarrow> error + json_value" where
  \<comment> \<open>\<^verbatim>\<open>obj[0]\<close>.\<close>
  "getitem_0 (JArray xs) = (case xs of [] \<Rightarrow> Inl IndexError | x # _ \<Rightarrow> Inr x)"
| "getitem_0 (JString s) = (case s of [] \<Rightarrow> Inl IndexError | c # _ \<Rightarrow> Inr (JString [c]))"
| "getitem_0 (JObject items) = Inl KeyError"
| "getitem_0 _ = Inl TypeError"

fun str_strip :: "json_value \<Rightarrow> error + string" where
  \<comment> \<open>\<^verbatim>\<open>obj.strip()\<close>: only a \<^verbatim>\<open>str\<close> has the method.\<close>
  "str_strip (JString s) = Inr (strip s)"
| "str_strip _ = Inl AttributeError"

datatype cell =
    Text string             \<comment> \<open>the text of a cell\<close>
  | Series "string list"    \<comment> \<open>what \<^verbatim>\<open>row[name]\<close> is when several columns carry the name\<close>

datatype prompt = Evaluator_prompt string cell
  \<comment> \<open>The f-string of \<^verbatim>\<open>score_response\<close>: a fixed text around the candidate's response and
      the model answer.\<close>

record request =
  url :: string
  headers :: "(string \<times> string) list"
  model :: string
  messages :: "(string \<times> prompt) list"   \<comment> \<open>role and content\<close>
  max_tokens :: nat

record response =
  status_code :: int
  body :: string                            \<comment> \<open>\<^verbatim>\<open>response.text\<close>\<close>
  json :: "error + json_value"              \<comment> \<open>what \<^verbatim>\<open>response.json()\<close> returns or raises\<close>

datatype printed =
    Could_not_understand                    \<comment> \<open>the two messages of \<^verbatim>\<open>transcribe_audio\<close>\<close>
  | Could_not_request
  | Unexpected_AI_response string           \<comment> \<open>the two messages of \<^verbatim>\<open>score_response\<close>\<close>
  | OpenRouter_API_error int string

record config =
  openrouter_api_key :: string              \<comment> \<open>the module's global, read once at start\<close>
  int_max_str_digits :: nat                 \<comment> \<open>the interpreter's limit on \<^verbatim>\<open>int(str)\<close>\<close>

definition OPENROUTER_URL :: string where
  "OPENROUTER_URL = ''https://openrouter.ai/api/v1/chat/completions''"

definition scoring_request :: "config \<Rightarrow> string \<Rightarrow> cell \<Rightarrow> request" where
  "scoring_request cfg user_answer correct_answer =
     \<lparr>url = OPENROUTER_URL,
      headers = [(''Authorization'', ''Bearer '' @ openrouter_api_key cfg),
                 (''Content-Type'', ''application/json'')],
      model = ''openai/gpt-4o'',
      messages = [(''system'', Evaluator_prompt user_answer correct_answer)],
      max_tokens = 5\<rparr>"

definition completion_content :: "json_value \<Rightarrow> error + json_value" where
  \<comment> \<open>\<^verbatim>\<open>result["choices"][0]["message"]["content"]\<close>, left to right.\<close>
  "completion_content result =
     (case getitem_key result ''choices'' of
        Inl e \<Rightarrow> Inl e
      | Inr choices \<Rightarrow>
          (case getitem_0 choices of
             Inl e \<Rightarrow> Inl e
           | Inr choice \<Rightarrow>
               (case getitem_key choice ''message'' of
                  Inl e \<Rightarrow> Inl e
                | Inr message \<Rightarrow> getitem_key message ''content'')))"

definition score_response ::
  "config \<Rightarrow> (request \<Rightarrow> error + response) \<Rightarrow> string \<Rightarrow> cell \<Rightarrow> bool
     \<Rightarrow> printed list \<times> (error + int)" where
  \<comment> \<open>\<open>post\<close> is \<^verbatim>\<open>requests.post\<close>: the remote service, which answers or raises. The
      result is what was printed and what was returned or raised.\<close>
  "score_response cfg post user_answer correct_answer use_ai =
     (if use_ai then
        (case post (scoring_request cfg user_answer correct_answer) of
           Inl e \<Rightarrow> ([], Inl e)
         | Inr response \<Rightarrow>
             if status_code response = 200 then
               (case json response of
                  Inl e \<Rightarrow> ([], Inl e)
                | Inr result \<Rightarrow>
                    (case completion_content result of
                       Inl e \<Rightarrow> ([], Inl e)
                     | Inr content \<Rightarrow>
                         (case str_strip content of
                            Inl e \<Rightarrow> ([], Inl e)
                          | Inr score_text \<Rightarrow>
                              (case py_int (int_max_str_digits cfg) score_text of
                                 Some score \<Rightarrow> ([], Inr (min (max score 0) 10))
                               | None \<Rightarrow> ([Unexpected_AI_response score_text], Inr 0)))))
             else ([OpenRouter_API_error (status_code response) (body response)], Inr 0))
      else
        (case correct_answer of
           Text answer \<Rightarrow>
             ([], Inr (if strip (lower user_answer) = strip (lower answer) then 10 else 0))
         | Series _ \<Rightarrow> ([], Inl AttributeError)))"

section \<open>The question document\<close>

datatype label =
    Name string     \<comment> \<open>a column label that is a \<^verbatim>\<open>str\<close>\<close>
  | Other_label     \<comment> \<open>any other label, such as the number of a numeric header cell\<close>

record dataframe =
  columns :: "label list"
  rows :: "string list list"    \<comment> \<open>cell \<open>i\<close> of a row belongs to column \<open>i\<close>\<close>

datatype document =
    Unreadable error            \<comment> \<open>\<^verbatim>\<open>pd.read_excel\<close> raises\<close>
  | Workbook dataframe          \<comment> \<open>\<^verbatim>\<open>pd.read_excel\<close> returns this frame\<close>

type_synonym filesystem = "string \<Rightarrow> document option"
  \<comment> \<open>\<open>None\<close> where \<^verbatim>\<open>os.path.exists\<close> is false.\<close>

definition file_path :: string where
  "file_path = ''/Users/himamp/Documents/questions.xlsx''"

fun strip_label :: "label \<Rightarrow> error + label" where
  \<comment> \<open>\<^verbatim>\<open>lambda x: x.strip()\<close>\<close>
  "strip_label (Name s) = Inr (Name (strip s))"
| "strip_label Other_label = Inl AttributeError"

fun rename_columns :: "label list \<Rightarrow> error + label list" where
  \<comment> \<open>\<^verbatim>\<open>df.rename(columns=..., inplace=True)\<close> applies the function to every label.\<close>
  "rename_columns [] = Inr []"
| "rename_columns (l # ls) =
     (case strip_label l of
        Inl e \<Rightarrow> Inl e
      | Inr l' \<Rightarrow>
          (case rename_columns ls of Inl e \<Rightarrow> Inl e | Inr ls' \<Rightarrow> Inr (l' # ls')))"

definition load_questions :: "filesystem \<Rightarrow> error + dataframe" where
  "load_questions fs =
     (case fs file_path of
        None \<Rightarrow> Inl FileNotFoundError
      | Some (Unreadable e) \<Rightarrow> Inl e
      | Some (Workbook df) \<Rightarrow>
          (case rename_columns (columns df) of
             Inl e \<Rightarrow> Inl e
           | Inr cols \<Rightarrow>
               if Name ''Question'' \<notin> set cols \<or> Name ''Answer'' \<notin> set cols
               then Inl KeyError
               else Inr (df\<lparr>columns := cols\<rparr>)))"

definition row_get :: "label list \<Rightarrow> string list \<Rightarrow> string \<Rightarrow> error + cell" where
  \<comment> \<open>\<^verbatim>\<open>row[name]\<close> on a row of \<^verbatim>\<open>iterrows()\<close>: the cell of the column \<open>name\<close>, or the
      series of the cells when several columns have that label.\<close>
  "row_get cols row name =
     (case map snd (filter (\<lambda>(l, c). l = Name name) (zip cols row)) of
        [] \<Rightarrow> Inl KeyError
      | [c] \<Rightarrow> Inr (Text c)
      | cs \<Rightarrow> Inr (Series cs))"

section \<open>Transcription\<close>

type_synonym namespace = "string list"
  \<comment> \<open>The names bound in the module's global namespace.\<close>

definition module_globals :: namespace where
  \<comment> \<open>What the module binds at top level, in the order of the file: the seven imports
      (\<^verbatim>\<open>import streamlit as st\<close>, \<^verbatim>\<open>import pandas as pd\<close>, \<^verbatim>\<open>import speech_recognition\<close>
      with no alias), the two assignments and the five functions.\<close>
  "module_globals =
     [''os'', ''time'', ''sqlite3'', ''st'', ''pd'', ''speech_recognition'', ''requests'',
      ''openrouter_api_key'', ''OPENROUTER_URL'',
      ''load_questions'', ''transcribe_audio'', ''score_response'', ''save_results'', ''main'']"

definition sr_bound :: "namespace \<Rightarrow> bool" where
  \<comment> \<open>Whether the name \<^verbatim>\<open>sr\<close> resolves when a function body reads it; reading an unbound
      name raises \<^verbatim>\<open>NameError\<close>. Where it is bound, it is the speech recognition module.\<close>
  "sr_bound g = (''sr'' \<in> set g)"

definition transcribe_audio ::
  "namespace \<Rightarrow> ('a \<Rightarrow> error + string) \<Rightarrow> 'a \<Rightarrow> printed list \<times> (error + string)" where
  \<comment> \<open>\<open>recognize_google\<close> is the remote transcription call.\<close>
  "transcribe_audio g recognize_google audio_data =
     (if \<not> sr_bound g then ([], Inl NameError)
      else
        (case recognize_google audio_data of
           Inr response_text \<Rightarrow> ([], Inr (strip response_text))
         | Inl UnknownValueError \<Rightarrow> ([Could_not_understand], Inr [])
         | Inl RequestError \<Rightarrow> ([Could_not_request], Inr [])
         | Inl e \<Rightarrow> ([], Inl e)))"

section \<open>The result store\<close>

type_synonym stored_row = "string \<times> string \<times> string \<times> int"
  \<comment> \<open>name, question, response, score\<close>

type_synonym database = "stored_row list option"
  \<comment> \<open>The table \<^verbatim>\<open>results\<close> of \<^verbatim>\<open>interviews.db\<close>; \<open>None\<close> before it is created.\<close>

type_synonym responses = "(string \<times> string \<times> int) list"
  \<comment> \<open>The dict \<^verbatim>\<open>responses\<close>, in insertion order: question, then response and score.\<close>

definition save_results :: "string \<Rightarrow> responses \<Rightarrow> database \<Rightarrow> database" where
  \<comment> \<open>The failures of SQLite are not modelled.\<close>
  "save_results candidate_name responses db =
     Some ((case db of None \<Rightarrow> [] | Some stored \<Rightarrow> stored)
           @ map (\<lambda>(question, response, score). (candidate_name, question, response, score))
               responses)"

section \<open>The session\<close>

record 'a interaction =
  microphone :: "error option"
    \<comment> \<open>entering \<^verbatim>\<open>with sr.Microphone(device_index=0)\<close>: the exception, if one is raised\<close>
  listen :: "error + 'a"                        \<comment> \<open>\<^verbatim>\<open>recognizer.listen(source, timeout=10)\<close>\<close>
  recognize_google :: "'a \<Rightarrow> error + string"
  requests_post :: "request \<Rightarrow> error + response"

datatype event =
    Title | Text_input
  | Subheader nat cell          \<comment> \<open>\<^verbatim>\<open>Question {idx+1}: {row['Question']}\<close>\<close>
  | Listening | Processing
  | Transcribed string
  | Error_no_speech | Error_timeout | Error_capture error
  | Print printed               \<comment> \<open>a line on standard output\<close>
  | Score int
  | Final_score int nat         \<comment> \<open>\<^verbatim>\<open>Final Score: {total_score}/{len(questions_df) * 10}\<close>\<close>
  | Transcript_header
  | Transcript_line string string int

definition capture :: "namespace \<Rightarrow> 'a interaction \<Rightarrow> event list \<times> string" where
  \<comment> \<open>The \<^verbatim>\<open>try\<close> block of the loop, under an open microphone: what is shown, and
      \<^verbatim>\<open>response_text\<close>.\<close>
  "capture g w =
     (case listen w of
        Inr audio \<Rightarrow>
          (case transcribe_audio g (recognize_google w) audio of
             (out, Inr response_text) \<Rightarrow>
               (Processing # map Print out
                  @ [if response_text \<noteq> [] then Transcribed response_text else Error_no_speech],
                response_text)
           | (out, Inl e) \<Rightarrow>
               (Processing # map Print out
                  @ [if e = WaitTimeoutError then Error_timeout else Error_capture e],
                []))
      | Inl e \<Rightarrow> ([if e = WaitTimeoutError then Error_timeout else Error_capture e], []))"

definition ask ::
  "namespace \<Rightarrow> config \<Rightarrow> 'a interaction \<Rightarrow> label list \<Rightarrow> nat \<Rightarrow> string list \<Rightarrow> responses
     \<Rightarrow> event list \<times> (error + responses)" where
  \<comment> \<open>One pass of the loop body, for the row at position \<open>idx\<close>.\<close>
  "ask g cfg w cols idx row responses =
     (case row_get cols row ''Question'' of
        Inl e \<Rightarrow> ([], Inl e)
      | Inr question \<Rightarrow>
          if \<not> sr_bound g then ([Subheader (idx + 1) question], Inl NameError)
          else
            (case microphone w of
               Some e \<Rightarrow> ([Subheader (idx + 1) question], Inl e)
             | None \<Rightarrow>
                 (case capture g w of
                    (shown, response_text) \<Rightarrow>
                      (case row_get cols row ''Answer'' of
                         Inl e \<Rightarrow> (Subheader (idx + 1) question # Listening # shown, Inl e)
                       | Inr answer \<Rightarrow>
                           (case score_response cfg (requests_post w) response_text answer True of
                              (out, Inl e) \<Rightarrow>
                                (Subheader (idx + 1) question # Listening # shown
                                   @ map Print out, Inl e)
                            | (out, Inr score) \<Rightarrow>
                                (case question of
                                   Series _ \<Rightarrow>
                                     (Subheader (idx + 1) question # Listening # shown
                                        @ map Print out, Inl TypeError)
                                 | Text q \<Rightarrow>
                                     (Subheader (idx + 1) question # Listening # shown
                                        @ map Print out @ [Score score],
                                      Inr (AList.update q (response_text, score)
                                             responses))))))))"

fun ask_all ::
  "namespace \<Rightarrow> config \<Rightarrow> (nat \<Rightarrow> 'a interaction) \<Rightarrow> label list \<Rightarrow> nat \<Rightarrow> string list list
     \<Rightarrow> responses \<Rightarrow> event list \<times> (error + responses)" where
  \<comment> \<open>The loop over \<^verbatim>\<open>questions_df.iterrows()\<close>, from position \<open>idx\<close> on; \<open>world idx\<close> is
      what the microphone and the two remote services do at that question.\<close>
  "ask_all g cfg world cols idx [] responses = ([], Inr responses)"
| "ask_all g cfg world cols idx (row # rest) responses =
     (case ask g cfg (world idx) cols idx row responses of
        (shown, Inl e) \<Rightarrow> (shown, Inl e)
      | (shown, Inr responses') \<Rightarrow>
          (case ask_all g cfg world cols (Suc idx) rest responses' of
             (shown', r) \<Rightarrow> (shown @ shown', r)))"

definition total_score :: "responses \<Rightarrow> int" where
  \<comment> \<open>\<^verbatim>\<open>sum(score for _, score in responses.values())\<close>\<close>
  "total_score responses = sum_list (map (\<lambda>(question, response, score). score) responses)"

definition main ::
  "namespace \<Rightarrow> config \<Rightarrow> filesystem \<Rightarrow> string \<Rightarrow> (nat \<Rightarrow> 'a interaction) \<Rightarrow> database
     \<Rightarrow> event list \<times> database \<times> (error + responses option)" where
  \<comment> \<open>One run of the script: \<open>candidate_name\<close> is what \<^verbatim>\<open>st.text_input\<close> returns. The
      result is what was shown, the store afterwards, and the exception that ended the
      run or the dict \<^verbatim>\<open>responses\<close> of a run that reached the final report
      (\<open>None\<close> when the body of \<^verbatim>\<open>if candidate_name\<close> was skipped).\<close>
  "main g cfg fs candidate_name world db =
     (case load_questions fs of
        Inl e \<Rightarrow> ([Title], db, Inl e)
      | Inr questions_df \<Rightarrow>
          if candidate_name \<noteq> [] then
            (case ask_all g cfg world (columns questions_df) 0 (rows questions_df) [] of
               (shown, Inl e) \<Rightarrow> (Title # Text_input # shown, db, Inl e)
             | (shown, Inr responses) \<Rightarrow>
                 (Title # Text_input # shown
                    @ [Final_score (total_score responses) (length (rows questions_df) * 10),
                       Transcript_header]
                    @ map (\<lambda>(question, answer, score). Transcript_line question answer score)
                        responses,
                  save_results candidate_name responses db,
                  Inr (Some responses)))
          else ([Title, Text_input], db, Inr None))"

section \<open>Notions and inputs used in the statements\<close>

definition completion_text :: "response \<Rightarrow> string \<Rightarrow> bool" where
  \<comment> \<open>The reply is JSON whose \<^verbatim>\<open>["choices"][0]["message"]["content"]\<close> is the string \<open>t\<close>.\<close>
  "completion_text r t =
     (case json r of
        Inl e \<Rightarrow> False
      | Inr result \<Rightarrow> completion_content result = Inr (JString t))"

definition chat_completion :: "int \<Rightarrow> string \<Rightarrow> response" where
  \<comment> \<open>A reply of the scoring endpoint with the given status and completion text.\<close>
  "chat_completion code t =
     \<lparr>status_code = code, body = ''{...}'',
      json = Inr (JObject
        [(''id'', JString ''gen-1''),
         (''choices'', JArray [JObject
            [(''index'', JNumber),
             (''message'', JObject [(''role'', JString ''assistant''),
                                    (''content'', JString t)])]])])\<rparr>"

definition default_config :: config where
  "default_config = \<lparr>openrouter_api_key = ''sk-or-v1'', int_max_str_digits = 4300\<rparr>"

definition offline :: "request \<Rightarrow> error + response" where
  "offline req = Inl (OtherError ''ConnectionError'')"

definition disk :: "dataframe \<Rightarrow> filesystem" where
  \<comment> \<open>A file system that holds the given workbook at \<open>file_path\<close> and nothing else.\<close>
  "disk df = (\<lambda>p. if p = file_path then Some (Workbook df) else None)"

definition two_questions :: dataframe where
  "two_questions =
     \<lparr>columns = [Name '' Question'', Name ''Answer ''],
      rows = [[''What is 2+2?'', ''4''], [''Capital of France?'', ''Paris'']]\<rparr>"

definition no_answer_column :: dataframe where
  "no_answer_column =
     \<lparr>columns = [Name ''Question'', Name ''Reply''], rows = [[''What is 2+2?'', ''4'']]\<rparr>"

definition lowercase_headers :: dataframe where
  "lowercase_headers =
     \<lparr>columns = [Name ''question'', Name '' ANSWER ''], rows = [[''What is 2+2?'', ''4'']]\<rparr>"

definition no_rows :: dataframe where
  "no_rows = \<lparr>columns = [Name ''Question'', Name ''Answer''], rows = []\<rparr>"

definition aliased_globals :: namespace where
  \<comment> \<open>The namespace the module would have under \<^verbatim>\<open>import speech_recognition as sr\<close>.\<close>
  "aliased_globals = ''sr'' # module_globals"

definition two_answers :: "nat \<Rightarrow> string interaction" where
  \<comment> \<open>A session in which the first answer is heard as \<^verbatim>\<open>four\<close> and scored \<^verbatim>\<open>15\<close> by the
      remote model, and every later question times out and gets the reply \<^verbatim>\<open>7.5\<close>.\<close>
  "two_answers idx =
     \<lparr>microphone = None,
      listen = (if idx = 0 then Inr ''audio-1'' else Inl WaitTimeoutError),
      recognize_google = (\<lambda>audio. Inr '' four ''),
      requests_post = (\<lambda>req. Inr (chat_completion 200 (if idx = 0 then ''15'' else ''7.5'')))\<rparr>"

definition answering :: "response \<Rightarrow> request \<Rightarrow> error + response" where
  \<comment> \<open>A remote service that gives the same reply to every request.\<close>
  "answering r req = Inr r"

definition not_json_reply :: response where
  \<comment> \<open>Status 200 with a body that is not JSON.\<close>
  "not_json_reply =
     \<lparr>status_code = 200, body = ''<html>Bad gateway</html>'', json = Inl JSONDecodeError\<rparr>"

definition no_choices_reply :: response where
  \<comment> \<open>Status 200 with a JSON object that has no \<^verbatim>\<open>choices\<close>.\<close>
  "no_choices_reply =
     \<lparr>status_code = 200, body = ''{...}'',
      json = Inr (JObject [(''error'', JObject [(''message'', JString ''rate limited'')])])\<rparr>"

definition null_content_reply :: response where
  \<comment> \<open>Status 200 with a completion whose content is \<^verbatim>\<open>null\<close>.\<close>
  "null_content_reply =
     \<lparr>status_code = 200, body = ''{...}'',
      json = Inr (JObject
        [(''choices'', JArray [JObject
            [(''message'', JObject [(''role'', JString ''assistant''),
                                    (''content'', JNull)])]])])\<rparr>"

definition service_unavailable :: response where
  "service_unavailable =
     \<lparr>status_code = 503, body = ''Service Unavailable'', json = Inl JSONDecodeError\<rparr>"

definition numeric_header :: dataframe where
  \<comment> \<open>Both required columns, and a third column whose header cell holds a number.\<close>
  "numeric_header =
     \<lparr>columns = [Name ''Question'', Name ''Answer'', Other_label],
      rows = [[''What is 2+2?'', ''4'', ''easy'']]\<rparr>"

definition numeric_header_no_answer :: dataframe where
  "numeric_header_no_answer =
     \<lparr>columns = [Name ''Question'', Other_label], rows = [[''What is 2+2?'', ''4'']]\<rparr>"

definition outage :: "nat \<Rightarrow> string interaction" where
  \<comment> \<open>A session in which every answer is heard and the scoring endpoint is down.\<close>
  "outage idx =
     \<lparr>microphone = None,
      listen = Inr ''audio'',
      recognize_google = (\<lambda>audio. Inr '' four ''),
      requests_post = answering service_unavailable\<rparr>"

section \<open>Strings\<close>

text \<open>
  \<open>strip\<close> removes whitespace at both ends and nothing else: what it returns neither begins
  nor ends with whitespace, and stripping twice changes nothing.
\<close>

lemma rstrip_split: "t = rstrip t @ rev (takeWhile isspace (rev t))"
proof -
  have "rev (takeWhile isspace (rev t) @ dropWhile isspace (rev t)) = t"
    by (simp only: takeWhile_dropWhile_id rev_rev_ident)
  then show ?thesis by (simp only: rstrip_def rev_append)
qed

lemma strip_split:
  "s = takeWhile isspace s @ strip s @ rev (takeWhile isspace (rev (lstrip s)))"
proof -
  have "s = takeWhile isspace s @ lstrip s" by (simp add: lstrip_def)
  also have "lstrip s = strip s @ rev (takeWhile isspace (rev (lstrip s)))"
    unfolding strip_def by (rule rstrip_split)
  finally show ?thesis .
qed

lemma strip_removes_whitespace:
  "\<exists>before after. s = before @ strip s @ after
     \<and> (\<forall>c \<in> set before. isspace c) \<and> (\<forall>c \<in> set after. isspace c)"
proof (intro exI conjI)
  show "s = takeWhile isspace s @ strip s @ rev (takeWhile isspace (rev (lstrip s)))"
    by (rule strip_split)
  show "\<forall>c \<in> set (takeWhile isspace s). isspace c"
    by (auto dest: set_takeWhileD)
  show "\<forall>c \<in> set (rev (takeWhile isspace (rev (lstrip s)))). isspace c"
    by (auto dest: set_takeWhileD)
qed

lemma strip_ends:
  assumes "strip s \<noteq> []"
  shows "\<not> isspace (hd (strip s)) \<and> \<not> isspace (last (strip s))"
proof
  have l: "lstrip s = strip s @ rev (takeWhile isspace (rev (lstrip s)))"
    unfolding strip_def by (rule rstrip_split)
  with assms have "hd (lstrip s) = hd (strip s)" by (metis hd_append2)
  moreover from l assms have "lstrip s \<noteq> []" by auto
  then have "\<not> isspace (hd (lstrip s))" unfolding lstrip_def by (rule hd_dropWhile)
  ultimately show "\<not> isspace (hd (strip s))" by simp
  from assms have "dropWhile isspace (rev (lstrip s)) \<noteq> []"
    by (simp add: strip_def rstrip_def)
  then have "\<not> isspace (hd (dropWhile isspace (rev (lstrip s))))" by (rule hd_dropWhile)
  then show "\<not> isspace (last (strip s))"
    by (simp add: strip_def rstrip_def last_rev)
qed

lemma strip_strip: "strip (strip s) = strip s"
proof (cases "strip s = []")
  case True
  have "strip [] = []" by (simp add: strip_def lstrip_def rstrip_def)
  with True show ?thesis by simp
next
  case False
  with strip_ends [of s] have h: "\<not> isspace (hd (strip s))" and l: "\<not> isspace (last (strip s))"
    by simp_all
  from False h have a: "lstrip (strip s) = strip s"
    by (cases "strip s") (simp_all add: lstrip_def)
  from False l have "dropWhile isspace (rev (strip s)) = rev (strip s)"
    by (cases "rev (strip s)") (auto simp: hd_rev)
  then have "rstrip (strip s) = strip s" by (simp add: rstrip_def)
  with a show ?thesis by (simp add: strip_def[of "strip s"])
qed

text \<open>Lower-casing keeps whitespace in place, so it commutes with trimming.\<close>

lemma isspace_lower_char: "isspace (lower_char c) = isspace c"
  unfolding isspace_def lower_char_def Let_def by auto

lemma dropWhile_isspace_lower:
  "dropWhile isspace (map lower_char s) = map lower_char (dropWhile isspace s)"
  by (induction s) (simp_all add: isspace_lower_char)

lemma strip_lower: "strip (lower s) = lower (strip s)"
  by (simp add: strip_def lstrip_def rstrip_def lower_def dropWhile_isspace_lower rev_map)

lemma strip_examples:
  "strip '' Question'' = ''Question''" "strip ''Answer '' = ''Answer''"
  "strip ''Question'' = ''Question''" "strip ''Reply'' = ''Reply''"
  "strip ''question'' = ''question''" "strip '' ANSWER '' = ''ANSWER''"
  by code_simp+

section \<open>Scoring without the model\<close>

text \<open>
  C1. With \<^verbatim>\<open>use_ai=False\<close>, \<open>score_response\<close> returns 10 when the candidate's answer and
  the reference answer are equal after lower-casing and trimming, and 0 otherwise; it
  prints nothing and does not depend on the remote service. Lower-casing and trimming
  commute, so the test is the same in the order "trimmed, then case-folded".
\<close>

theorem plain_scoring:
  "score_response cfg post user_answer (Text answer) False =
     ([], Inr (if strip (lower user_answer) = strip (lower answer) then 10 else 0))
   \<and> (strip (lower user_answer) = strip (lower answer)
        \<longleftrightarrow> lower (strip user_answer) = lower (strip answer))"
  by (simp add: score_response_def strip_lower)

theorem plain_scoring_witness:
  "score_response default_config offline ''  PARIS '' (Text ''Paris'') False = ([], Inr 10)
   \<and> score_response default_config offline ''London'' (Text ''Paris'') False = ([], Inr 0)"
proof -
  have a: "strip (lower ''  PARIS '') = strip (lower ''Paris'')" by code_simp
  have b: "strip (lower ''London'') \<noteq> strip (lower ''Paris'')" by code_simp
  show ?thesis
    using plain_scoring [of default_config offline "''  PARIS ''" "''Paris''"]
      plain_scoring [of default_config offline "''London''" "''Paris''"] a b
    by simp
qed

text \<open>
  C10. Scoring without the model is symmetric in the two answers.
\<close>

theorem plain_scoring_symmetric:
  "score_response cfg post a (Text b) False = score_response cfg post b (Text a) False"
  by (auto simp: score_response_def)

theorem plain_scoring_symmetric_witness:
  "score_response default_config offline ''Paris'' (Text '' paris'') False
     = score_response default_config offline '' paris'' (Text ''Paris'') False"
  using plain_scoring_symmetric [of default_config offline "''Paris''" "'' paris''"] by simp

section \<open>Scoring with the model\<close>

lemma score_response_reply:
  assumes "post (scoring_request cfg user_answer correct_answer) = Inr r"
    and "status_code r = 200" and "completion_text r t"
  shows "score_response cfg post user_answer correct_answer True =
           (case py_int (int_max_str_digits cfg) (strip t) of
              Some score \<Rightarrow> ([], Inr (min (max score 0) 10))
            | None \<Rightarrow> ([Unexpected_AI_response (strip t)], Inr 0))"
  using assms
  by (auto simp: score_response_def completion_text_def split: sum.splits)

lemma score_response_failure:
  assumes "post (scoring_request cfg user_answer correct_answer) = Inr r"
    and "status_code r \<noteq> 200"
  shows "score_response cfg post user_answer correct_answer True =
           ([OpenRouter_API_error (status_code r) (body r)], Inr 0)"
  using assms by (simp add: score_response_def)

lemma chat_completion_text: "completion_text (chat_completion code t) t"
  by (simp add: completion_text_def chat_completion_def completion_content_def)

lemma chat_completion_status: "status_code (chat_completion code t) = code"
  by (simp add: chat_completion_def)

lemma py_int_examples:
  "py_int (int_max_str_digits default_config) (strip ''15'') = Some 15"
  "py_int (int_max_str_digits default_config) (strip ''-3'') = Some (- 3)"
  "py_int (int_max_str_digits default_config) (strip ''7.5'') = None"
  by code_simp+

text \<open>
  C2, as stated: with \<^verbatim>\<open>use_ai=True\<close>, every remote reply gives an integer between 0 and
  10. Under status 200 the function calls \<^verbatim>\<open>response.json()\<close>, subscripts the result and
  calls \<^verbatim>\<open>.strip()\<close> outside the \<^verbatim>\<open>try\<close>: a reply whose body is not JSON, has no
  \<^verbatim>\<open>choices\<close> or has a \<^verbatim>\<open>null\<close> content makes it raise.
\<close>

theorem malformed_reply_counterexample:
  "snd (score_response default_config (answering not_json_reply) ''four'' (Text ''4'') True)
     = Inl JSONDecodeError
   \<and> snd (score_response default_config (answering no_choices_reply) ''four'' (Text ''4'') True)
     = Inl KeyError
   \<and> snd (score_response default_config (answering null_content_reply) ''four'' (Text ''4'') True)
     = Inl AttributeError"
  by code_simp

text \<open>
  C2, amended: with \<^verbatim>\<open>use_ai=True\<close>, a reply whose status is not 200, and a reply of
  status 200 that is JSON with a string \<open>t\<close> as its completion text, whatever \<open>t\<close> is, make
  \<open>score_response\<close> return an integer between 0 and 10. Where the status is 200 and the
  text parses as the integer \<open>v\<close>, the score is \<open>v\<close> clamped: 0 for a negative \<open>v\<close>, 10
  for \<open>v\<close> above 10.
\<close>

theorem score_in_range:
  assumes "post (scoring_request cfg user_answer correct_answer) = Inr r"
    and "status_code r = 200 \<Longrightarrow> completion_text r t"
  shows "\<exists>n. snd (score_response cfg post user_answer correct_answer True) = Inr n
           \<and> 0 \<le> n \<and> n \<le> 10
           \<and> (\<forall>v. status_code r = 200
                  \<and> py_int (int_max_str_digits cfg) (strip t) = Some v
                \<longrightarrow> (v < 0 \<longrightarrow> n = 0) \<and> (0 \<le> v \<and> v \<le> 10 \<longrightarrow> n = v)
                    \<and> (10 < v \<longrightarrow> n = 10))"
proof (cases "status_code r = 200")
  case True
  then have ct: "completion_text r t" by (rule assms(2))
  have "score_response cfg post user_answer correct_answer True =
           (case py_int (int_max_str_digits cfg) (strip t) of
              Some score \<Rightarrow> ([], Inr (min (max score 0) 10))
            | None \<Rightarrow> ([Unexpected_AI_response (strip t)], Inr 0))"
    using assms(1) True ct by (rule score_response_reply)
  then show ?thesis
    by (cases "py_int (int_max_str_digits cfg) (strip t)") auto
next
  case False
  have "score_response cfg post user_answer correct_answer True =
           ([OpenRouter_API_error (status_code r) (body r)], Inr 0)"
    using assms(1) False by (rule score_response_failure)
  then show ?thesis using False by simp
qed

theorem score_in_range_witness:
  "snd (score_response default_config (\<lambda>req. Inr (chat_completion 200 ''15''))
          ''four'' (Text ''4'') True) = Inr 10
   \<and> snd (score_response default_config (\<lambda>req. Inr (chat_completion 200 ''-3''))
          ''four'' (Text ''4'') True) = Inr 0"
proof -
  have a: "snd (score_response default_config (\<lambda>req. Inr (chat_completion 200 ''15''))
          ''four'' (Text ''4'') True) = Inr 10"
    using score_in_range [where post = "\<lambda>req. Inr (chat_completion 200 ''15'')"
        and cfg = default_config and user_answer = "''four''" and correct_answer = "Text ''4''"
        and r = "chat_completion 200 ''15''" and t = "''15''"]
      chat_completion_text [of 200 "''15''"] py_int_examples(1)
    by (auto simp: chat_completion_status)
  have b: "snd (score_response default_config (\<lambda>req. Inr (chat_completion 200 ''-3''))
          ''four'' (Text ''4'') True) = Inr 0"
    using score_in_range [where post = "\<lambda>req. Inr (chat_completion 200 ''-3'')"
        and cfg = default_config and user_answer = "''four''" and correct_answer = "Text ''4''"
        and r = "chat_completion 200 ''-3''" and t = "''-3''"]
      chat_completion_text [of 200 "''-3''"] py_int_examples(2)
    by (auto simp: chat_completion_status)
  from a b show ?thesis by simp
qed

text \<open>
  C3. With \<^verbatim>\<open>use_ai=True\<close>, a reply whose completion text does not parse as an integer
  makes \<open>score_response\<close> return 0: it returns, it does not raise. Under status 200 it
  prints the warning with the text it could not parse.
\<close>

theorem unparseable_reply_scores_zero:
  assumes "post (scoring_request cfg user_answer correct_answer) = Inr r"
    and "status_code r = 200 \<Longrightarrow> completion_text r t"
    and "py_int (int_max_str_digits cfg) (strip t) = None"
  shows "snd (score_response cfg post user_answer correct_answer True) = Inr 0
         \<and> (status_code r = 200 \<longrightarrow>
              fst (score_response cfg post user_answer correct_answer True)
                = [Unexpected_AI_response (strip t)])"
proof (cases "status_code r = 200")
  case True
  then have ct: "completion_text r t" by (rule assms(2))
  have "score_response cfg post user_answer correct_answer True =
           (case py_int (int_max_str_digits cfg) (strip t) of
              Some score \<Rightarrow> ([], Inr (min (max score 0) 10))
            | None \<Rightarrow> ([Unexpected_AI_response (strip t)], Inr 0))"
    using assms(1) True ct by (rule score_response_reply)
  with assms(3) show ?thesis by simp
next
  case False
  have "score_response cfg post user_answer correct_answer True =
           ([OpenRouter_API_error (status_code r) (body r)], Inr 0)"
    using assms(1) False by (rule score_response_failure)
  then show ?thesis using False by simp
qed

theorem unparseable_reply_scores_zero_witness:
  "score_response default_config (\<lambda>req. Inr (chat_completion 200 ''7.5''))
     ''four'' (Text ''4'') True = ([Unexpected_AI_response ''7.5''], Inr 0)"
proof -
  have "strip ''7.5'' = ''7.5''" by code_simp
  then show ?thesis
    using unparseable_reply_scores_zero
        [where post = "\<lambda>req. Inr (chat_completion 200 ''7.5'')"
        and cfg = default_config and user_answer = "''four''" and correct_answer = "Text ''4''"
        and r = "chat_completion 200 ''7.5''" and t = "''7.5''"]
      chat_completion_text [of 200 "''7.5''"] py_int_examples(3)
    by (auto simp: chat_completion_status prod_eq_iff)
qed

lemma ask_failed_request:
  assumes "sr_bound g" and "microphone w = None"
    and "row_get cols row ''Question'' = Inr (Text q)"
    and "row_get cols row ''Answer'' = Inr answer"
    and "requests_post w (scoring_request cfg (snd (capture g w)) answer) = Inr r"
    and "status_code r \<noteq> 200"
  shows "ask g cfg w cols idx row responses =
           (Subheader (idx + 1) (Text q) # Listening # fst (capture g w)
              @ [Print (OpenRouter_API_error (status_code r) (body r)), Score 0],
            Inr (AList.update q (snd (capture g w), 0) responses))"
proof -
  obtain shown response_text where c: "capture g w = (shown, response_text)"
    by (cases "capture g w")
  with assms(5) have "requests_post w (scoring_request cfg response_text answer) = Inr r"
    by simp
  then have "score_response cfg (requests_post w) response_text answer True =
           ([OpenRouter_API_error (status_code r) (body r)], Inr 0)"
    using assms(6) by (rule score_response_failure)
  with assms(1-4) c show ?thesis by (simp add: ask_def)
qed

lemma ask_unbound:
  "snd (ask module_globals cfg w cols idx row responses) = Inl KeyError
   \<or> snd (ask module_globals cfg w cols idx row responses) = Inl NameError"
  by (auto simp: ask_def sr_bound_def module_globals_def row_get_def
      split: sum.splits list.splits)

text \<open>
  A reply whose status is not 200 is scored 0 and printed. Where the loop of \<open>main\<close>
  gets as far as the scoring call for a row (\<^verbatim>\<open>sr\<close> is bound, the microphone opens, the
  row has one question cell) and gets such a reply, it shows the warning and the score 0,
  records the answer with the score 0, and goes on to the next row.
\<close>

lemma failed_request_continues:
  "(post (scoring_request cfg user_answer correct_answer) = Inr r \<and> status_code r \<noteq> 200
      \<longrightarrow> score_response cfg post user_answer correct_answer True =
            ([OpenRouter_API_error (status_code r) (body r)], Inr 0))
   \<and> (sr_bound g \<and> microphone (world idx) = None
        \<and> row_get cols row ''Question'' = Inr (Text q)
        \<and> row_get cols row ''Answer'' = Inr answer
        \<and> requests_post (world idx)
              (scoring_request cfg (snd (capture g (world idx))) answer) = Inr r'
        \<and> status_code r' \<noteq> 200
      \<longrightarrow> ask_all g cfg world cols idx (row # rest) responses =
            (Subheader (idx + 1) (Text q) # Listening # fst (capture g (world idx))
               @ [Print (OpenRouter_API_error (status_code r') (body r')), Score 0]
               @ fst (ask_all g cfg world cols (Suc idx) rest
                        (AList.update q (snd (capture g (world idx)), 0) responses)),
             snd (ask_all g cfg world cols (Suc idx) rest
                    (AList.update q (snd (capture g (world idx)), 0) responses))))"
proof (intro conjI impI)
  assume "post (scoring_request cfg user_answer correct_answer) = Inr r \<and> status_code r \<noteq> 200"
  then show "score_response cfg post user_answer correct_answer True =
            ([OpenRouter_API_error (status_code r) (body r)], Inr 0)"
    using score_response_failure [of post cfg user_answer correct_answer r] by simp
next
  assume h: "sr_bound g \<and> microphone (world idx) = None
        \<and> row_get cols row ''Question'' = Inr (Text q)
        \<and> row_get cols row ''Answer'' = Inr answer
        \<and> requests_post (world idx)
              (scoring_request cfg (snd (capture g (world idx))) answer) = Inr r'
        \<and> status_code r' \<noteq> 200"
  then have "ask g cfg (world idx) cols idx row responses =
           (Subheader (idx + 1) (Text q) # Listening # fst (capture g (world idx))
              @ [Print (OpenRouter_API_error (status_code r') (body r')), Score 0],
            Inr (AList.update q (snd (capture g (world idx)), 0) responses))"
    using ask_failed_request [of g "world idx" cols row q answer cfg r' idx responses] by simp
  then show "ask_all g cfg world cols idx (row # rest) responses =
            (Subheader (idx + 1) (Text q) # Listening # fst (capture g (world idx))
               @ [Print (OpenRouter_API_error (status_code r') (body r')), Score 0]
               @ fst (ask_all g cfg world cols (Suc idx) rest
                        (AList.update q (snd (capture g (world idx)), 0) responses)),
             snd (ask_all g cfg world cols (Suc idx) rest
                    (AList.update q (snd (capture g (world idx)), 0) responses)))"
    by (simp add: split_beta)
qed

lemma failed_request_continues_example:
  "score_response default_config (answering service_unavailable) ''four'' (Text ''4'') True
     = ([OpenRouter_API_error 503 ''Service Unavailable''], Inr 0)
   \<and> snd (ask_all aliased_globals default_config outage [Name ''Question'', Name ''Answer''] 0
            [[''What is 2+2?'', ''4''], [''Capital of France?'', ''Paris'']] [])
     = Inr [(''What is 2+2?'', ''four'', 0), (''Capital of France?'', ''four'', 0)]"
proof -
  have f1: "answering service_unavailable (scoring_request default_config ''four'' (Text ''4''))
              = Inr service_unavailable"
    by (simp add: answering_def)
  have f2: "status_code service_unavailable \<noteq> 200"
    and f2': "status_code service_unavailable = 503"
    and f2'': "body service_unavailable = ''Service Unavailable''"
    by (simp_all add: service_unavailable_def)
  have f3: "sr_bound aliased_globals" by code_simp
  have f4: "microphone (outage 0) = None" by (simp add: outage_def)
  have f5: "row_get [Name ''Question'', Name ''Answer''] [''What is 2+2?'', ''4''] ''Question''
              = Inr (Text ''What is 2+2?'')"
    by code_simp
  have f6: "row_get [Name ''Question'', Name ''Answer''] [''What is 2+2?'', ''4''] ''Answer''
              = Inr (Text ''4'')"
    by code_simp
  have f7: "requests_post (outage 0)
              (scoring_request default_config (snd (capture aliased_globals (outage 0)))
                 (Text ''4'')) = Inr service_unavailable"
    by (simp add: outage_def answering_def)
  have f8: "snd (capture aliased_globals (outage 0)) = ''four''" by code_simp
  have f9: "snd (ask_all aliased_globals default_config outage
                   [Name ''Question'', Name ''Answer''] (Suc 0)
                   [[''Capital of France?'', ''Paris'']]
                   (AList.update ''What is 2+2?'' (''four'', 0) []))
              = Inr [(''What is 2+2?'', ''four'', 0), (''Capital of France?'', ''four'', 0)]"
    by code_simp
  note t = failed_request_continues
      [where post = "answering service_unavailable" and cfg = default_config
         and user_answer = "''four''" and correct_answer = "Text ''4''"
         and r = service_unavailable and g = aliased_globals and world = outage and idx = 0
         and cols = "[Name ''Question'', Name ''Answer'']" and row = "[''What is 2+2?'', ''4'']"
         and q = "''What is 2+2?''" and answer = "Text ''4''" and r' = service_unavailable
         and rest = "[[''Capital of France?'', ''Paris'']]" and responses = "[]"]
  from t f1 f2 have a: "score_response default_config (answering service_unavailable)
                          ''four'' (Text ''4'') True
     = ([OpenRouter_API_error 503 ''Service Unavailable''], Inr 0)"
    by (simp add: f2' f2'')
  from t f2 f3 f4 f5 f6 f7 have
    "snd (ask_all aliased_globals default_config outage [Name ''Question'', Name ''Answer''] 0
            [[''What is 2+2?'', ''4''], [''Capital of France?'', ''Paris'']] [])
     = snd (ask_all aliased_globals default_config outage
                   [Name ''Question'', Name ''Answer''] (Suc 0)
                   [[''Capital of France?'', ''Paris'']]
                   (AList.update ''What is 2+2?''
                      (snd (capture aliased_globals (outage 0)), 0) []))"
    by simp
  with f8 f9 a show ?thesis by simp
qed


section \<open>Loading the questions\<close>

lemma rename_columns_names:
  "rename_columns (map Name hs) = Inr (map (\<lambda>h. Name (strip h)) hs)"
  by (induction hs) simp_all

lemma load_questions_names:
  assumes "fs file_path = Some (Workbook df)" and "columns df = map Name hs"
  shows "load_questions fs =
           (if ''Question'' \<notin> strip ` set hs \<or> ''Answer'' \<notin> strip ` set hs
            then Inl KeyError
            else Inr (df\<lparr>columns := map (\<lambda>h. Name (strip h)) hs\<rparr>))"
  using assms by (auto simp: load_questions_def rename_columns_names)

lemma load_examples:
  "load_questions (disk two_questions) =
     Inr \<lparr>columns = [Name ''Question'', Name ''Answer''],
          rows = [[''What is 2+2?'', ''4''], [''Capital of France?'', ''Paris'']]\<rparr>"
  "load_questions (disk no_rows) =
     Inr \<lparr>columns = [Name ''Question'', Name ''Answer''], rows = []\<rparr>"
  "load_questions (\<lambda>p. None) = Inl FileNotFoundError"
  by code_simp+

text \<open>
  C5, as stated: the loader raises the schema error when \<^verbatim>\<open>Question\<close> or \<^verbatim>\<open>Answer\<close> is
  absent after trimming, and returns the table when both are present. The trimming calls
  \<^verbatim>\<open>x.strip()\<close> on every column label before the check: a document with a header cell
  that is not a string raises \<^verbatim>\<open>AttributeError\<close>, with both required columns present and
  with one of them absent.
\<close>

theorem numeric_header_counterexample:
  "load_questions (disk numeric_header) = Inl AttributeError
   \<and> load_questions (disk numeric_header_no_answer) = Inl AttributeError"
  by code_simp

text \<open>
  C5, amended: \<open>load_questions\<close> raises \<^verbatim>\<open>FileNotFoundError\<close> when the document does not
  exist. For a readable document whose column names are all strings, \<open>hs\<close>, it raises
  \<^verbatim>\<open>KeyError\<close> (the schema error) when no name is \<^verbatim>\<open>Question\<close> after trimming or no name is
  \<^verbatim>\<open>Answer\<close> after trimming, and it returns the table, under the trimmed names, when both
  are there.
\<close>

theorem load_questions_outcomes:
  "(fs file_path = None \<longrightarrow> load_questions fs = Inl FileNotFoundError)
   \<and> (fs file_path = Some (Workbook df) \<and> columns df = map Name hs
        \<and> (''Question'' \<notin> strip ` set hs \<or> ''Answer'' \<notin> strip ` set hs)
      \<longrightarrow> load_questions fs = Inl KeyError)
   \<and> (fs file_path = Some (Workbook df) \<and> columns df = map Name hs
        \<and> ''Question'' \<in> strip ` set hs \<and> ''Answer'' \<in> strip ` set hs
      \<longrightarrow> load_questions fs = Inr (df\<lparr>columns := map (\<lambda>h. Name (strip h)) hs\<rparr>))"
proof (intro conjI impI)
  assume "fs file_path = None"
  then show "load_questions fs = Inl FileNotFoundError" by (simp add: load_questions_def)
next
  assume "fs file_path = Some (Workbook df) \<and> columns df = map Name hs
        \<and> (''Question'' \<notin> strip ` set hs \<or> ''Answer'' \<notin> strip ` set hs)"
  then show "load_questions fs = Inl KeyError"
    using load_questions_names [of fs df hs] by auto
next
  assume "fs file_path = Some (Workbook df) \<and> columns df = map Name hs
        \<and> ''Question'' \<in> strip ` set hs \<and> ''Answer'' \<in> strip ` set hs"
  then show "load_questions fs = Inr (df\<lparr>columns := map (\<lambda>h. Name (strip h)) hs\<rparr>)"
    using load_questions_names [of fs df hs] by auto
qed

theorem load_questions_outcomes_witness:
  "load_questions (\<lambda>p. None) = Inl FileNotFoundError
   \<and> load_questions (disk no_answer_column) = Inl KeyError
   \<and> load_questions (disk two_questions) =
       Inr \<lparr>columns = [Name ''Question'', Name ''Answer''],
            rows = [[''What is 2+2?'', ''4''], [''Capital of France?'', ''Paris'']]\<rparr>"
proof -
  have a: "load_questions (\<lambda>p. None) = Inl FileNotFoundError"
    using load_questions_outcomes [of "\<lambda>p. None"] by simp
  have b: "load_questions (disk no_answer_column) = Inl KeyError"
    using load_questions_outcomes
      [of "disk no_answer_column" no_answer_column "[''Question'', ''Reply'']"]
    by (simp add: disk_def no_answer_column_def strip_examples)
  have c: "load_questions (disk two_questions) =
       Inr \<lparr>columns = [Name ''Question'', Name ''Answer''],
            rows = [[''What is 2+2?'', ''4''], [''Capital of France?'', ''Paris'']]\<rparr>"
    using load_questions_outcomes
      [of "disk two_questions" two_questions "['' Question'', ''Answer '']"]
    by (simp add: disk_def two_questions_def strip_examples)
  from a b c show ?thesis by simp
qed

text \<open>
  C6, as stated: headers that equal \<^verbatim>\<open>Question\<close> and \<^verbatim>\<open>Answer\<close> up to letter case after
  trimming are accepted. The loader trims the names and does not fold their case: the
  headers \<^verbatim>\<open>question\<close> and \<^verbatim>\<open> ANSWER \<close> match in that sense and are refused.
\<close>

theorem header_case_counterexample:
  "lower (strip ''question'') = lower ''Question''
   \<and> lower (strip '' ANSWER '') = lower ''Answer''
   \<and> load_questions (disk lowercase_headers) = Inl KeyError"
  by code_simp

text \<open>
  C6, amended: the check is blind to surrounding whitespace and sensitive to letter case.
  A readable document with string headers \<open>hs\<close> loads exactly when some header is
  \<^verbatim>\<open>Question\<close> after trimming and some header is \<^verbatim>\<open>Answer\<close> after trimming, letter for letter.
\<close>

theorem header_match_case_sensitive:
  assumes "fs file_path = Some (Workbook df)" and "columns df = map Name hs"
  shows "(\<exists>questions_df. load_questions fs = Inr questions_df)
           \<longleftrightarrow> (\<exists>h \<in> set hs. strip h = ''Question'') \<and> (\<exists>h \<in> set hs. strip h = ''Answer'')"
proof -
  have "\<And>name. (name \<in> strip ` set hs) = (\<exists>h \<in> set hs. strip h = name)"
    by blast
  with load_questions_names [of fs df hs] assms show ?thesis
    by (simp split: if_splits)
qed

theorem header_match_case_sensitive_witness:
  "(\<exists>questions_df. load_questions (disk two_questions) = Inr questions_df)
   \<and> \<not> (\<exists>questions_df. load_questions (disk lowercase_headers) = Inr questions_df)"
proof -
  have a: "disk two_questions file_path = Some (Workbook two_questions)"
    and b: "disk lowercase_headers file_path = Some (Workbook lowercase_headers)"
    by (simp_all add: disk_def)
  have c: "columns two_questions = map Name ['' Question'', ''Answer '']"
    and d: "columns lowercase_headers = map Name [''question'', '' ANSWER '']"
    by (simp_all add: two_questions_def lowercase_headers_def)
  show ?thesis
    using header_match_case_sensitive
            [of "disk two_questions" two_questions "['' Question'', ''Answer '']"]
          header_match_case_sensitive
            [of "disk lowercase_headers" lowercase_headers "[''question'', '' ANSWER '']"]
          a b c d
    by (simp add: strip_examples)
qed

section \<open>Transcription\<close>

lemma transcribe_audio_handlers:
  assumes "sr_bound g"
    and "recognize audio_data = Inl UnknownValueError \<or> recognize audio_data = Inl RequestError"
  shows "snd (transcribe_audio g recognize audio_data) = Inr []"
  using assms by (auto simp: transcribe_audio_def)

lemma transcribe_audio_unbound:
  "transcribe_audio module_globals recognize audio_data = ([], Inl NameError)"
  by (simp add: transcribe_audio_def sr_bound_def module_globals_def)

text \<open>
  C7. When the remote transcription call raises the unknown-value or the request-error
  exception, \<open>transcribe_audio\<close> is to return the empty string. The two handlers do that
  wherever the name \<^verbatim>\<open>sr\<close> is bound (\<open>transcribe_audio_handlers\<close>). The module binds
  \<^verbatim>\<open>speech_recognition\<close> and never \<^verbatim>\<open>sr\<close>, so the first statement of the function raises
  \<^verbatim>\<open>NameError\<close> before the remote call is made, and that exception leaves the function.
\<close>

theorem transcribe_audio_raises_name_error:
  "transcribe_audio module_globals (\<lambda>audio. Inl UnknownValueError) ''audio-1''
     = ([], Inl NameError)
   \<and> transcribe_audio module_globals (\<lambda>audio. Inl RequestError) ''audio-1''
     = ([], Inl NameError)"
  by (simp add: transcribe_audio_def sr_bound_def module_globals_def)

section \<open>The session\<close>

lemma capture_no_final: "Final_score t m \<notin> set (fst (capture g w))"
  by (auto simp: capture_def split: sum.splits prod.splits)

lemma ask_no_final: "Final_score t m \<notin> set (fst (ask g cfg w cols idx row responses))"
proof -
  obtain shown response_text where c: "capture g w = (shown, response_text)"
    by (cases "capture g w")
  with capture_no_final [of t m g w] have "Final_score t m \<notin> set shown" by simp
  then show ?thesis
    by (auto simp: ask_def c split: sum.splits prod.splits option.splits cell.splits)
qed

lemma ask_all_no_final:
  "Final_score t m \<notin> set (fst (ask_all g cfg world cols idx rs responses))"
proof (induction rs arbitrary: idx responses)
  case Nil
  show ?case by simp
next
  case (Cons row rest)
  obtain shown r where a: "ask g cfg (world idx) cols idx row responses = (shown, r)"
    by (cases "ask g cfg (world idx) cols idx row responses")
  with ask_no_final [of t m g cfg "world idx" cols idx row responses]
  have s: "Final_score t m \<notin> set shown" by simp
  show ?case
  proof (cases r)
    case (Inl e)
    with a s show ?thesis by simp
  next
    case (Inr responses')
    obtain shown' r' where
      b: "ask_all g cfg world cols (Suc idx) rest responses' = (shown', r')"
      by (cases "ask_all g cfg world cols (Suc idx) rest responses'")
    with Cons.IH [of "Suc idx" responses'] have "Final_score t m \<notin> set shown'" by simp
    with a s Inr b show ?thesis by simp
  qed
qed

text \<open>
  C8. In a run of \<open>main\<close> that reaches the final report with the dict \<open>responses\<close>, the
  document was loaded, and the one final score shown is the sum of the scores held in
  \<open>responses\<close> over 10 times the number of rows of the loaded document.
\<close>

theorem final_report:
  assumes "snd (snd (main g cfg fs candidate_name world db)) = Inr (Some responses)"
  shows "\<exists>questions_df. load_questions fs = Inr questions_df
           \<and> (\<forall>t m. Final_score t m \<in> set (fst (main g cfg fs candidate_name world db))
                 \<longleftrightarrow> t = (\<Sum>(question, response, score) \<leftarrow> responses. score)
                     \<and> m = 10 * length (rows questions_df))"
proof (cases "load_questions fs")
  case (Inl e)
  with assms show ?thesis by (simp add: main_def)
next
  case (Inr questions_df)
  obtain shown r where
    l: "ask_all g cfg world (columns questions_df) 0 (rows questions_df) [] = (shown, r)"
    by (cases "ask_all g cfg world (columns questions_df) 0 (rows questions_df) []")
  from ask_all_no_final [of _ _ g cfg world "columns questions_df" 0 "rows questions_df" "[]"] l
  have nf: "\<And>t m. Final_score t m \<notin> set shown" by simp
  from assms Inr l have n: "candidate_name \<noteq> []" and r: "r = Inr responses"
    by (auto simp: main_def split: if_splits sum.splits)
  have "\<forall>t m. Final_score t m \<in> set (fst (main g cfg fs candidate_name world db))
                 \<longleftrightarrow> t = (\<Sum>(question, response, score) \<leftarrow> responses. score)
                     \<and> m = 10 * length (rows questions_df)"
    using Inr l n r nf by (auto simp: main_def total_score_def)
  with Inr show ?thesis by simp
qed

theorem final_report_witness:
  "snd (snd (main aliased_globals default_config (disk two_questions) ''Ada'' two_answers None))
     = Inr (Some [(''What is 2+2?'', ''four'', 10), (''Capital of France?'', [], 0)])
   \<and> (\<forall>t m. Final_score t m
               \<in> set (fst (main aliased_globals default_config (disk two_questions) ''Ada''
                              two_answers None))
             \<longleftrightarrow> t = 10 \<and> m = 20)
   \<and> snd (snd (main module_globals default_config (disk no_rows) ''Ada'' two_answers None))
     = Inr (Some [])
   \<and> (\<forall>t m. Final_score t m
               \<in> set (fst (main module_globals default_config (disk no_rows) ''Ada''
                              two_answers None))
             \<longleftrightarrow> t = 0 \<and> m = 0)"
proof -
  have a: "snd (snd (main aliased_globals default_config (disk two_questions) ''Ada''
                       two_answers None))
     = Inr (Some [(''What is 2+2?'', ''four'', 10), (''Capital of France?'', [], 0)])"
    by code_simp
  have b: "snd (snd (main module_globals default_config (disk no_rows) ''Ada''
                       two_answers None)) = Inr (Some [])"
    by code_simp
  from final_report [OF a] obtain df where
    l: "load_questions (disk two_questions) = Inr df"
    and c: "\<forall>t m. Final_score t m
               \<in> set (fst (main aliased_globals default_config (disk two_questions) ''Ada''
                              two_answers None))
             \<longleftrightarrow> t = (\<Sum>(question, response, score)
                        \<leftarrow> [(''What is 2+2?'', ''four'', 10), (''Capital of France?'', [], 0)].
                        score)
                 \<and> m = 10 * length (rows df)"
    by blast
  from l have "rows df = [[''What is 2+2?'', ''4''], [''Capital of France?'', ''Paris'']]"
    by (auto simp: load_examples(1))
  with c have c': "\<forall>t m. Final_score t m
               \<in> set (fst (main aliased_globals default_config (disk two_questions) ''Ada''
                              two_answers None))
             \<longleftrightarrow> t = 10 \<and> m = 20"
    by simp
  from final_report [OF b] obtain df' where
    l': "load_questions (disk no_rows) = Inr df'"
    and d: "\<forall>t m. Final_score t m
               \<in> set (fst (main module_globals default_config (disk no_rows) ''Ada''
                              two_answers None))
             \<longleftrightarrow> t = (\<Sum>(question, response, score) \<leftarrow> ([] :: responses). score)
                 \<and> m = 10 * length (rows df')"
    by blast
  from l' have "rows df' = []"
    by (auto simp: load_examples(2))
  with d have d': "\<forall>t m. Final_score t m
               \<in> set (fst (main module_globals default_config (disk no_rows) ''Ada''
                              two_answers None))
             \<longleftrightarrow> t = 0 \<and> m = 0"
    by simp
  from a b c' d' show ?thesis by blast
qed

text \<open>
  C9. With an empty candidate name the body of \<^verbatim>\<open>if candidate_name\<close> is skipped: a run
  shows the title and, when the document loads, the name input, and nothing else; it
  leaves the store as it was, and its outcome does not depend on the microphone or on
  the remote services, which are never called.
\<close>

theorem entry_guard:
  "main g cfg fs [] world db =
     (case load_questions fs of
        Inl e \<Rightarrow> ([Title], db, Inl e)
      | Inr questions_df \<Rightarrow> ([Title, Text_input], db, Inr None))"
  by (simp add: main_def split: sum.splits)

theorem entry_guard_witness:
  "main module_globals default_config (disk two_questions) [] two_answers None
     = ([Title, Text_input], None, Inr None)
   \<and> main aliased_globals default_config (\<lambda>p. None) [] two_answers None
     = ([Title], None, Inl FileNotFoundError)"
proof -
  have "main module_globals default_config (disk two_questions) [] two_answers None
     = ([Title, Text_input], None, Inr None)"
    unfolding entry_guard [of module_globals default_config "disk two_questions" two_answers None]
    by (simp only: load_examples sum.case)
  moreover have "main aliased_globals default_config (\<lambda>p. None) [] two_answers None
     = ([Title], None, Inl FileNotFoundError)"
    unfolding entry_guard [of aliased_globals default_config "\<lambda>p. None" two_answers None]
    by (simp only: load_examples sum.case)
  ultimately show ?thesis by simp
qed

end
